theory Spec2Isabelle
  imports Complex_Main
begin

section \<open>JavaScript values\<close>

text \<open>
  The values that flow through the handlers at run time. The body of the transform
  response is parsed by \<^verbatim>\<open>res.json()\<close> into a value of type \<^verbatim>\<open>any\<close>, so the
  model keeps the whole range of JSON values, and \<^verbatim>\<open>undefined\<close> for an absent
  property. A number carries the exact value of the parsed double. The list of a
  \<open>JObj\<close> holds the own properties of the object.
\<close>

datatype js =
    JUndefined
  | JNull
  | JBool bool
  | JNum rat
  | JStr string
  | JArr "js list"
  | JObj "(string \<times> js) list"

text \<open>JavaScript truthiness, as used by \<^verbatim>\<open>||\<close>, \<^verbatim>\<open>&&\<close> and \<^verbatim>\<open>if\<close>.\<close>

fun truthy :: "js \<Rightarrow> bool" where
  "truthy JUndefined = False"
| "truthy JNull = False"
| "truthy (JBool b) = b"
| "truthy (JNum n) = (n \<noteq> 0)"
| "truthy (JStr s) = (s \<noteq> [])"
| "truthy (JArr xs) = True"
| "truthy (JObj kvs) = True"

text \<open>\<^verbatim>\<open>a || b\<close>\<close>

definition js_or :: "js \<Rightarrow> js \<Rightarrow> js" where
  "js_or a b = (if truthy a then a else b)"

text \<open>
  \<^verbatim>\<open>data.text\<close>: reading the property of \<^verbatim>\<open>null\<close> or \<^verbatim>\<open>undefined\<close> throws a
  TypeError (\<open>None\<close>); an object yields its property or \<^verbatim>\<open>undefined\<close>; strings,
  numbers, booleans and arrays have no property of that name.
\<close>

fun prop_text :: "js \<Rightarrow> js option" where
  "prop_text JUndefined = None"
| "prop_text JNull = None"
| "prop_text (JObj kvs) =
     Some (case map_of kvs ''text'' of None \<Rightarrow> JUndefined | Some v \<Rightarrow> v)"
| "prop_text v = Some JUndefined"

section \<open>The TiptapEditor component\<close>

subsection \<open>State, props and effects\<close>

text \<open>The six \<^verbatim>\<open>useState\<close> cells of the component.\<close>

record editor_state =
  action :: string
  style :: string
  loading :: bool
  responseText :: js
  modalOpen :: bool
  error :: string

definition initial_state :: editor_state where
  "initial_state =
     \<lparr>action = ''rewrite'', style = ''formal'', loading = False,
      responseText = JStr [], modalOpen = False, error = []\<rparr>"

text \<open>
  The editor instance returned by \<^verbatim>\<open>useEditor\<close> belongs to the rich-text framework.
  The handlers read it through \<^verbatim>\<open>getText()\<close> only, so an instance is represented by
  the plain text it reports; the commands the handlers run on it are effects.
\<close>

record tiptap =
  getText :: string

text \<open>
  What the handlers see of their surroundings: the editor instance (\<^verbatim>\<open>null\<close> until
  the framework has created it) and whether the two callback props are present.
\<close>

record editor_env =
  editor :: "tiptap option"
  onChange :: bool
  onAIContentAccept :: bool

record request =
  url :: string
  http_method :: string
  headers :: "(string \<times> string) list"
  body :: js

text \<open>
  The calls a handler makes outside its own state, in order. The \<open>body\<close> of a request
  is the object handed to \<^verbatim>\<open>JSON.stringify\<close>.
\<close>

datatype effect =
    Fetch request
  | SetContent js
  | OnChange js
  | OnAIContentAccept js

text \<open>
  Modelled from the spec: the rich-text framework is not among the sources. The document
  of the editing surface after a sequence of effects: \<^verbatim>\<open>editor.commands.setContent(v)\<close>
  replaces the entire document by the one the framework builds from \<open>v\<close>, the other
  effects leave the surface alone. What the framework builds from its argument (it
  parses a string as HTML, so the document need not read as the string does) is the
  parameter \<open>parse\<close>; the handlers decide only which argument the command receives.
\<close>

fun surface_content :: "(js \<Rightarrow> 'd) \<Rightarrow> 'd \<Rightarrow> effect list \<Rightarrow> 'd" where
  "surface_content parse c [] = c"
| "surface_content parse c (SetContent v # es) = surface_content parse (parse v) es"
| "surface_content parse c (e # es) = surface_content parse c es"

subsection \<open>handleSend\<close>

text \<open>What the awaited \<^verbatim>\<open>fetch\<close> and \<^verbatim>\<open>res.json()\<close> deliver.\<close>

datatype fetch_outcome =
    Rejected
  | Responded bool "js option"

text \<open>
  \<open>Rejected\<close>: the promise of \<^verbatim>\<open>fetch\<close> rejects (network error).
  \<open>Responded ok b\<close>: a response with \<^verbatim>\<open>res.ok = ok\<close>; \<open>b\<close> is the value
  \<^verbatim>\<open>res.json()\<close> resolves to, \<open>None\<close> when the body is not valid JSON and the
  promise rejects.
\<close>

datatype exn =
    FetchRejected
  | Error string
  | SyntaxError
  | TypeError

definition REQUEST_URL :: string where
  "REQUEST_URL = ''https://backend-tiptap.onrender.com/process''"

definition SEND_ERROR :: string where
  "SEND_ERROR = ''Failed to get response. Please try again.''"

text \<open>The \<^verbatim>\<open>try\<close> block after the request has been issued.\<close>

definition send_try :: "fetch_outcome \<Rightarrow> editor_state \<Rightarrow> exn + editor_state" where
  "send_try out s =
     (case out of
        Rejected \<Rightarrow> Inl FetchRejected
      | Responded ok b \<Rightarrow>
          if \<not> ok then Inl (Error ''Request failed'')
          else (case b of
                  None \<Rightarrow> Inl SyntaxError
                | Some data \<Rightarrow>
                    (case prop_text data of
                       None \<Rightarrow> Inl TypeError
                     | Some t \<Rightarrow>
                         Inr (s\<lparr>responseText := js_or t (JStr []),
                                modalOpen := True\<rparr>))))"

definition send_request :: "tiptap \<Rightarrow> editor_state \<Rightarrow> request" where
  "send_request ed s =
     \<lparr>url = REQUEST_URL, http_method = ''POST'',
      headers = [(''Content-Type'', ''application/json'')],
      body = JObj [(''text'', JStr (getText ed)),
                   (''action'', JStr (action s)),
                   (''style'', JStr (style s))]\<rparr>"

definition handleSend ::
  "editor_env \<Rightarrow> fetch_outcome \<Rightarrow> editor_state \<Rightarrow> editor_state \<times> effect list" where
  "handleSend env out s =
     (case editor env of
        None \<Rightarrow> (s, [])
      | Some ed \<Rightarrow>
          let s1 = s\<lparr>loading := True, error := []\<rparr>;
              s2 = (case send_try out s1 of
                      Inl err \<Rightarrow> s1\<lparr>error := SEND_ERROR\<rparr>
                    | Inr s' \<Rightarrow> s')
          in (s2\<lparr>loading := False\<rparr>, [Fetch (send_request ed s)]))"

subsection \<open>The three choices of the response modal\<close>

definition handleAccept :: "editor_env \<Rightarrow> editor_state \<Rightarrow> editor_state \<times> effect list" where
  "handleAccept env s =
     (s\<lparr>modalOpen := False, responseText := JStr []\<rparr>,
      if editor env \<noteq> None \<and> truthy (responseText s)
      then [SetContent (responseText s)]
           @ (if onChange env then [OnChange (responseText s)] else [])
           @ (if onAIContentAccept env then [OnAIContentAccept (responseText s)] else [])
      else [])"

definition handleResend :: "editor_state \<Rightarrow> editor_state \<times> effect list" where
  "handleResend s = (s\<lparr>modalOpen := False, responseText := JStr []\<rparr>, [])"

definition handleKeepExisting :: "editor_state \<Rightarrow> editor_state \<times> effect list" where
  "handleKeepExisting s = (s\<lparr>modalOpen := False, responseText := JStr []\<rparr>, [])"

section \<open>The ProposalDevelopmentModule screen\<close>

subsection \<open>Strings\<close>


definition dq :: string where
  "dq = [CHR 0x22]"





subsection \<open>The catalog of sections\<close>




subsection \<open>The project record and the collaborators of the screen\<close>

text \<open>
  Modelled from the spec: the type declarations of the project record, the user
  roles and the module stages (\<^verbatim>\<open>types\<close>) are not among the sources. A project has
  a title, an optional idea (concept, background and objective texts) and an optional
  proposal; a proposal maps section ids to free text and has an ethics status and an
  optional ethics feedback. Of the two enumerations, the members this screen names
  are kept apart from all the others.
\<close>

record Idea =
  concept :: "string option"
  background :: "string option"
  objective :: "string option"

record Proposal =
  sections :: "string \<rightharpoonup> string"
  ethicsStatus :: string
  ethicsFeedback :: "string option"

record Project =
  title :: string
  idea :: "Idea option"
  proposal :: "Proposal option"

datatype UserRole = HCP | RESEARCHER | STATISTICIAN | OTHER_ROLE string

datatype ModuleStage = DATA_COLLECTION_ANALYSIS | OTHER_STAGE string

text \<open>The fields \<^verbatim>\<open>id\<close>, \<^verbatim>\<open>name\<close> and \<^verbatim>\<open>role\<close> of a user; \<^verbatim>\<open>MOCK_USERS\<close> is a list of them.\<close>

record User =
  user_id :: string
  user_name :: string
  role :: UserRole

text \<open>
  The argument of \<^verbatim>\<open>updateProposal\<close>: an object holding some of the fields of a
  proposal (\<open>None\<close>: the key is absent).
\<close>

record ProposalPartial =
  p_sections :: "(string \<rightharpoonup> string) option"
  p_ethicsStatus :: "string option"
  p_ethicsFeedback :: "string option"

text \<open>
  The calls a handler makes on its collaborators, in order: the functions of the shared
  project context, the router and the generation service.
\<close>

datatype call =
    UpdateProposal ProposalPartial
  | SetIsLoading bool
  | SetError string
  | ClearError
  | AssignExpert string string
  | SetProjectStage ModuleStage
  | Navigate string
  | GenerateTextWithRAG string string string

text \<open>
  Modelled from the spec: the shared project context (\<^verbatim>\<open>ProjectContext\<close>) is not among
  the sources. Its \<^verbatim>\<open>updateProposal(partial)\<close> stores the fields of the partial object
  in the proposal and keeps the others; \<open>proposal_after\<close> is the proposal once the
  context has served the calls of a handler.
\<close>

definition updateProposal :: "ProposalPartial \<Rightarrow> Proposal \<Rightarrow> Proposal" where
  "updateProposal u p =
     \<lparr>sections = (case p_sections u of None \<Rightarrow> sections p | Some x \<Rightarrow> x),
      ethicsStatus = (case p_ethicsStatus u of None \<Rightarrow> ethicsStatus p | Some x \<Rightarrow> x),
      ethicsFeedback = (case p_ethicsFeedback u of None \<Rightarrow> ethicsFeedback p | Some x \<Rightarrow> Some x)\<rparr>"

fun proposal_after :: "call list \<Rightarrow> Proposal \<Rightarrow> Proposal" where
  "proposal_after [] p = p"
| "proposal_after (UpdateProposal u # cs) p = proposal_after cs (updateProposal u p)"
| "proposal_after (c # cs) p = proposal_after cs p"

subsection \<open>Local state of the screen\<close>

datatype notification_type = N_success | N_error | N_info | N_warning

record Notification =
  message :: string
  ntype :: notification_type

record module_state =
  activeSection :: "string option"
  notification :: "Notification option"
  showMeetingPlaceholder :: bool

text \<open>\<^verbatim>\<open>currentProject?.proposal?.ethicsStatus\<close>\<close>

definition ethicsStatus_of :: "Project option \<Rightarrow> string option" where
  "ethicsStatus_of currentProject =
     (case currentProject of
        None \<Rightarrow> None
      | Some pr \<Rightarrow> (case proposal pr of None \<Rightarrow> None | Some p \<Rightarrow> Some (ethicsStatus p)))"

subsection \<open>Section edits and AI suggestions\<close>









subsection \<open>The ethics workflow\<close>

definition submitToEthics :: "Project option \<Rightarrow> module_state \<Rightarrow> module_state \<times> call list" where
  "submitToEthics currentProject m =
     (case currentProject of
        None \<Rightarrow> (m, [])
      | Some pr \<Rightarrow>
          (m\<lparr>notification := Some
               \<lparr>message = ''Proposal submitted to Ethics Committee/IRB (Simulated).'',
                ntype = N_success\<rparr>\<rparr>,
           [UpdateProposal
              \<lparr>p_sections = None, p_ethicsStatus = Some ''Submitted'',
               p_ethicsFeedback = None\<rparr>]))"

definition ETHICS_FEEDBACK :: string where
  "ETHICS_FEEDBACK =
     ''The Ethics Committee has reviewed your proposal. Please clarify the patient recruitment strategy (Section: Methodology) and provide more details on data anonymization (Section: Ethics). Resubmission required.''"

definition simulateEthicsFeedback ::
  "Project option \<Rightarrow> module_state \<Rightarrow> module_state \<times> call list" where
  "simulateEthicsFeedback currentProject m =
     (case currentProject of
        None \<Rightarrow> (m, [])
      | Some pr \<Rightarrow>
          (m\<lparr>notification := Some
               \<lparr>message = ''Simulated feedback received from Ethics Committee.'',
                ntype = N_info\<rparr>\<rparr>,
           [UpdateProposal
              \<lparr>p_sections = None, p_ethicsStatus = Some ''Feedback Received'',
               p_ethicsFeedback = Some ETHICS_FEEDBACK\<rparr>]))"

text \<open>\<open>users\<close> is \<^verbatim>\<open>MOCK_USERS\<close>, a constant of the repository.\<close>

definition markEthicsApproved ::
  "User list \<Rightarrow> Project option \<Rightarrow> module_state \<Rightarrow> module_state \<times> call list" where
  "markEthicsApproved users currentProject m =
     (case currentProject of
        None \<Rightarrow> (m, [])
      | Some pr \<Rightarrow>
          let approve = UpdateProposal
                \<lparr>p_sections = None, p_ethicsStatus = Some ''Approved'',
                 p_ethicsFeedback = Some ''Congratulations! Your proposal has been approved.''\<rparr>
          in (case find (\<lambda>u. role u = STATISTICIAN) users of
                Some statistician \<Rightarrow>
                  (m\<lparr>notification := Some
                       \<lparr>message = ''Proposal Approved! Statistician '' @ dq
                                  @ user_name statistician @ dq
                                  @ '' has been assigned (12 hours allocated).'',
                        ntype = N_success\<rparr>\<rparr>,
                   [approve, AssignExpert ''statistician'' (user_id statistician)])
              | None \<Rightarrow>
                  (m\<lparr>notification := Some
                       \<lparr>message = ''Proposal Approved! (No mock statistician found).'',
                        ntype = N_success\<rparr>\<rparr>,
                   [approve])))"

definition NOT_APPROVED_ERROR :: string where
  "NOT_APPROVED_ERROR = ''Proposal must be approved by Ethics Committee before proceeding.''"

definition proceedToDataCollection ::
  "Project option \<Rightarrow> module_state \<Rightarrow> module_state \<times> call list" where
  "proceedToDataCollection currentProject m =
     (if ethicsStatus_of currentProject = Some ''Approved''
      then (m\<lparr>notification := Some
                 \<lparr>message = ''Proceeding to Data Collection & Analysis.'',
                  ntype = N_success\<rparr>\<rparr>,
            [SetProjectStage DATA_COLLECTION_ANALYSIS, Navigate ''/data''])
      else (m\<lparr>notification := Some \<lparr>message = NOT_APPROVED_ERROR, ntype = N_error\<rparr>\<rparr>,
            [SetError NOT_APPROVED_ERROR]))"

subsection \<open>The buttons of the ethics panel\<close>

definition canEdit :: "User option \<Rightarrow> bool" where
  "canEdit currentUser =
     (case currentUser of
        None \<Rightarrow> False
      | Some u \<Rightarrow> role u = HCP \<or> role u = RESEARCHER)"

datatype button =
    Submit_to_Ethics
  | Simulate_Ethics_Feedback
  | Resubmit_to_Ethics
  | Force_Mark_Approved
  | Proceed_to_Data_Collection

text \<open>
  The buttons the screen renders in the ethics panel, in the order of the markup. Without
  a project or without its idea the screen renders the placeholder card only.
\<close>

definition ethics_buttons :: "bool \<Rightarrow> Project option \<Rightarrow> button list" where
  "ethics_buttons can_edit currentProject =
     (if currentProject = None \<or> (case currentProject of None \<Rightarrow> True | Some pr \<Rightarrow> idea pr = None)
      then []
      else
        let st = ethicsStatus_of currentProject in
          (if can_edit \<and> st = Some ''Not Submitted'' then [Submit_to_Ethics] else [])
          @ (if st = Some ''Submitted'' then [Simulate_Ethics_Feedback] else [])
          @ (if can_edit \<and> st = Some ''Feedback Received''
             then [Resubmit_to_Ethics, Force_Mark_Approved] else [])
          @ (if can_edit \<and> st \<noteq> Some ''Approved'' \<and> st \<noteq> Some ''Feedback Received''
                \<and> st \<noteq> Some ''Submitted''
             then [Force_Mark_Approved] else [])
          @ (if st = Some ''Approved'' then [Proceed_to_Data_Collection] else []))"

text \<open>The \<^verbatim>\<open>onClick\<close> handler of each button.\<close>

fun onClick ::
  "User list \<Rightarrow> button \<Rightarrow> Project option \<Rightarrow> module_state \<Rightarrow> module_state \<times> call list" where
  "onClick users Submit_to_Ethics = submitToEthics"
| "onClick users Simulate_Ethics_Feedback = simulateEthicsFeedback"
| "onClick users Resubmit_to_Ethics = submitToEthics"
| "onClick users Force_Mark_Approved = markEthicsApproved users"
| "onClick users Proceed_to_Data_Collection = proceedToDataCollection"

text \<open>The four values of the ethics status.\<close>

definition ETHICS_STATUSES :: "string list" where
  "ETHICS_STATUSES = [''Not Submitted'', ''Submitted'', ''Feedback Received'', ''Approved'']"

text \<open>The initial values of the three \<^verbatim>\<open>useState\<close> cells of the screen.\<close>

definition initial_module_state :: module_state where
  "initial_module_state =
     \<lparr>activeSection = Some ''background'', notification = None,
      showMeetingPlaceholder = False\<rparr>"

section \<open>Concrete inputs\<close>

text \<open>
  Inputs for the closed instances below: an editor whose surface holds the text
  \<open>Long paragraph...\<close> with both callbacks present, a project whose proposal has one
  section filled in and a given ethics status, and a user list with one statistician.
\<close>

definition example_env :: editor_env where
  "example_env =
     \<lparr>editor = Some \<lparr>getText = ''Long paragraph...''\<rparr>, onChange = True,
      onAIContentAccept = True\<rparr>"

definition example_proposal :: "string \<Rightarrow> Proposal" where
  "example_proposal st =
     \<lparr>sections = [''background'' \<mapsto> ''Prior work.''], ethicsStatus = st,
      ethicsFeedback = None\<rparr>"

definition example_project :: "string \<Rightarrow> Project" where
  "example_project st =
     \<lparr>title = ''Trial'',
      idea = Some \<lparr>concept = Some ''A concept'', background = None, objective = None\<rparr>,
      proposal = Some (example_proposal st)\<rparr>"

definition example_users :: "User list" where
  "example_users =
     [\<lparr>user_id = ''u1'', user_name = ''Dr. Ada'', role = HCP\<rparr>,
      \<lparr>user_id = ''u2'', user_name = ''Sam'', role = STATISTICIAN\<rparr>]"

section \<open>Properties of the editor\<close>

lemmas send_defs = handleSend_def send_try_def send_request_def js_or_def Let_def

text \<open>
  C1 (as amended). Whatever the answer, Send issues one POST to the fixed URL whose body
  is the object \<open>{text, action, style}\<close> with the plain text of the surface and the two
  dropdown selections. On a 2xx response whose JSON object has a text field holding a
  non-empty string \<open>t\<close>, the modal opens with \<open>t\<close> pending; Accept then hands exactly
  \<open>t\<close> to \<^verbatim>\<open>setContent\<close>, so the surface holds the document the framework builds from
  \<open>t\<close>, and calls \<^verbatim>\<open>onChange\<close> and the acceptance callback (each when present) with
  exactly \<open>t\<close>. When the text field holds the empty string, the modal opens as well, but
  Accept makes no call at all.
\<close>

theorem send_then_accept:
  fixes env ed out kvs t s parse c s1
  defines "s1 \<equiv> fst (handleSend env (Responded True (Some (JObj kvs))) s)"
  assumes "editor env = Some ed"
  shows "snd (handleSend env out s) =
           [Fetch \<lparr>url = ''https://backend-tiptap.onrender.com/process'',
                   http_method = ''POST'',
                   headers = [(''Content-Type'', ''application/json'')],
                   body = JObj [(''text'', JStr (getText ed)),
                                (''action'', JStr (action s)),
                                (''style'', JStr (style s))]\<rparr>]
       \<and> (map_of kvs ''text'' = Some (JStr t) \<and> t \<noteq> []
          \<longrightarrow> modalOpen s1 \<and> responseText s1 = JStr t \<and> error s1 = []
              \<and> snd (handleAccept env s1) =
                  [SetContent (JStr t)]
                  @ (if onChange env then [OnChange (JStr t)] else [])
                  @ (if onAIContentAccept env then [OnAIContentAccept (JStr t)] else [])
              \<and> surface_content parse c (snd (handleAccept env s1)) = parse (JStr t))
       \<and> (map_of kvs ''text'' = Some (JStr [])
          \<longrightarrow> modalOpen s1 \<and> responseText s1 = JStr []
              \<and> snd (handleAccept env s1) = []
              \<and> surface_content parse c (snd (handleAccept env s1)) = c)"
  using assms
  by (simp add: send_defs handleAccept_def REQUEST_URL_def)

text \<open>
  The example of the specification: action \<open>summarize\<close>, style \<open>casual\<close>, surface text
  \<open>Long paragraph...\<close>, response \<open>{text: "Short version."}\<close>; and the response
  \<open>{text: ""}\<close>, after which Accept makes no call.
\<close>

theorem send_then_accept_witness:
  "snd (handleSend example_env
          (Responded True (Some (JObj [(''text'', JStr ''Short version.'')])))
          (initial_state\<lparr>action := ''summarize'', style := ''casual''\<rparr>)) =
     [Fetch \<lparr>url = ''https://backend-tiptap.onrender.com/process'', http_method = ''POST'',
             headers = [(''Content-Type'', ''application/json'')],
             body = JObj [(''text'', JStr ''Long paragraph...''),
                          (''action'', JStr ''summarize''),
                          (''style'', JStr ''casual'')]\<rparr>]
   \<and> modalOpen (fst (handleSend example_env
          (Responded True (Some (JObj [(''text'', JStr ''Short version.'')])))
          (initial_state\<lparr>action := ''summarize'', style := ''casual''\<rparr>)))
   \<and> responseText (fst (handleSend example_env
          (Responded True (Some (JObj [(''text'', JStr ''Short version.'')])))
          (initial_state\<lparr>action := ''summarize'', style := ''casual''\<rparr>)))
      = JStr ''Short version.''
   \<and> snd (handleAccept example_env
           (fst (handleSend example_env
                  (Responded True (Some (JObj [(''text'', JStr ''Short version.'')])))
                  (initial_state\<lparr>action := ''summarize'', style := ''casual''\<rparr>))))
      = [SetContent (JStr ''Short version.''), OnChange (JStr ''Short version.''),
         OnAIContentAccept (JStr ''Short version.'')]
   \<and> snd (handleAccept example_env
           (fst (handleSend example_env
                  (Responded True (Some (JObj [(''text'', JStr [])])))
                  initial_state)))
      = []"
  using send_then_accept
          [where env = example_env and ed = "\<lparr>getText = ''Long paragraph...''\<rparr>"
             and out = "Responded True (Some (JObj [(''text'', JStr ''Short version.'')]))"
             and kvs = "[(''text'', JStr ''Short version.'')]" and t = "''Short version.''"
             and s = "initial_state\<lparr>action := ''summarize'', style := ''casual''\<rparr>"
             and parse = id and c = "JStr ''Long paragraph...''"]
    send_then_accept
          [where env = example_env and ed = "\<lparr>getText = ''Long paragraph...''\<rparr>"
             and out = "Responded True (Some (JObj [(''text'', JStr [])]))"
             and kvs = "[(''text'', JStr [])]" and t = "''Short version.''"
             and s = initial_state
             and parse = id and c = "JStr ''Long paragraph...''"]
  by (simp add: example_env_def initial_state_def)

text \<open>
  C1 as stated fails when the text field is the empty string: the modal opens, but
  Accept makes no call, so the surface still holds \<open>Long paragraph...\<close> (whatever the
  framework does with the argument of a \<^verbatim>\<open>setContent\<close>, here \<open>id\<close>, none is run) and
  the acceptance callback is never called.
\<close>

theorem accept_empty_text_counterexample:
  "\<not> (surface_content id (JStr ''Long paragraph...'')
        (snd (handleAccept example_env
           (fst (handleSend example_env
                  (Responded True (Some (JObj [(''text'', JStr [])])))
                  initial_state))))
      = JStr []
     \<and> OnAIContentAccept (JStr []) \<in> set
        (snd (handleAccept example_env
           (fst (handleSend example_env
                  (Responded True (Some (JObj [(''text'', JStr [])])))
                  initial_state)))))"
  by (simp add: send_defs handleAccept_def example_env_def initial_state_def)

text \<open>
  C3 (as amended). When the request is rejected by the network, answered with a
  non-2xx status, answered with a body that is not valid JSON, or answered with the
  JSON value \<open>null\<close>, Send sets the one generic, non-empty error message and leaves the
  modal flag and the pending response as they were. A 2xx response whose body is a JSON
  object without a text field is no failure: no error is set and the modal opens with
  the empty text pending.
\<close>

theorem send_failure_uniform:
  fixes env ed out s s' kvs
  defines "s' \<equiv> fst (handleSend env out s)"
  assumes "editor env = Some ed"
  shows "(out = Rejected \<or> (\<exists>b. out = Responded False b) \<or> out = Responded True None
            \<or> out = Responded True (Some JNull)
          \<longrightarrow> error s' = ''Failed to get response. Please try again.''
              \<and> error s' = SEND_ERROR \<and> SEND_ERROR \<noteq> []
              \<and> modalOpen s' = modalOpen s \<and> responseText s' = responseText s)
       \<and> (out = Responded True (Some (JObj kvs)) \<and> map_of kvs ''text'' = None
          \<longrightarrow> error s' = [] \<and> modalOpen s' \<and> responseText s' = JStr [])"
  using assms
  by (auto simp add: send_defs SEND_ERROR_def)

theorem send_failure_uniform_witness:
  "error (fst (handleSend example_env Rejected initial_state)) = SEND_ERROR
   \<and> \<not> modalOpen (fst (handleSend example_env Rejected initial_state))
   \<and> error (fst (handleSend example_env (Responded False None) initial_state)) = SEND_ERROR
   \<and> \<not> modalOpen (fst (handleSend example_env (Responded False None) initial_state))
   \<and> error (fst (handleSend example_env (Responded True None) initial_state)) = SEND_ERROR
   \<and> \<not> modalOpen (fst (handleSend example_env (Responded True None) initial_state))
   \<and> error (fst (handleSend example_env (Responded True (Some JNull)) initial_state))
       = SEND_ERROR
   \<and> \<not> modalOpen (fst (handleSend example_env (Responded True (Some JNull)) initial_state))
   \<and> error (fst (handleSend example_env (Responded True (Some (JObj []))) initial_state)) = []
   \<and> modalOpen (fst (handleSend example_env (Responded True (Some (JObj []))) initial_state))"
  using send_failure_uniform
          [where env = example_env and ed = "\<lparr>getText = ''Long paragraph...''\<rparr>"
             and out = Rejected and s = initial_state]
    send_failure_uniform
          [where env = example_env and ed = "\<lparr>getText = ''Long paragraph...''\<rparr>"
             and out = "Responded False None" and s = initial_state]
    send_failure_uniform
          [where env = example_env and ed = "\<lparr>getText = ''Long paragraph...''\<rparr>"
             and out = "Responded True None" and s = initial_state]
    send_failure_uniform
          [where env = example_env and ed = "\<lparr>getText = ''Long paragraph...''\<rparr>"
             and out = "Responded True (Some JNull)" and s = initial_state]
    send_failure_uniform
          [where env = example_env and ed = "\<lparr>getText = ''Long paragraph...''\<rparr>"
             and out = "Responded True (Some (JObj []))" and s = initial_state
             and kvs = "[]"]
  by (simp add: example_env_def initial_state_def SEND_ERROR_def)

text \<open>
  C3 as stated fails for a 2xx response whose body is the JSON object \<open>{}\<close>: no error
  message is produced and the modal opens.
\<close>

theorem send_missing_text_counterexample:
  "\<not> (error (fst (handleSend example_env (Responded True (Some (JObj []))) initial_state))
        = SEND_ERROR
      \<and> \<not> modalOpen
            (fst (handleSend example_env (Responded True (Some (JObj []))) initial_state)))"
  by (simp add: send_defs example_env_def initial_state_def SEND_ERROR_def)

text \<open>
  C7 (as amended). A request answered with a non-2xx status sets the non-empty generic
  error and leaves the pending response and the modal flag as they were; so when Send
  was pressed with the modal closed and no response pending, afterwards the response
  text is empty, the error is non-empty and the modal is closed.
\<close>

theorem send_non_2xx_frame:
  fixes env ed b s s'
  defines "s' \<equiv> fst (handleSend env (Responded False b) s)"
  assumes "editor env = Some ed"
  shows "responseText s' = responseText s \<and> modalOpen s' = modalOpen s
       \<and> error s' = SEND_ERROR \<and> error s' \<noteq> []
       \<and> (\<not> modalOpen s \<and> responseText s = JStr []
            \<longrightarrow> responseText s' = JStr [] \<and> error s' \<noteq> [] \<and> \<not> modalOpen s')"
  using assms
  by (simp add: send_defs SEND_ERROR_def)

theorem send_non_2xx_frame_witness:
  "responseText (fst (handleSend example_env (Responded False None) initial_state)) = JStr []
   \<and> error (fst (handleSend example_env (Responded False None) initial_state)) \<noteq> []
   \<and> \<not> modalOpen (fst (handleSend example_env (Responded False None) initial_state))"
  using send_non_2xx_frame
          [where env = example_env and ed = "\<lparr>getText = ''Long paragraph...''\<rparr>"
             and b = None and s = initial_state]
  by (simp add: example_env_def initial_state_def SEND_ERROR_def)

text \<open>
  C7 as stated fails when Send is pressed again while the modal of an earlier, successful
  request is still open (the Send button is disabled by \<^verbatim>\<open>disabled || loading\<close> only):
  after the non-2xx answer the response text is still \<open>Short version.\<close> and the modal
  is still open.
\<close>

theorem send_non_2xx_modal_open_counterexample:
  "\<not> (responseText (fst (handleSend example_env (Responded False None)
          (fst (handleSend example_env
                 (Responded True (Some (JObj [(''text'', JStr ''Short version.'')])))
                 initial_state)))) = JStr []
      \<and> error (fst (handleSend example_env (Responded False None)
          (fst (handleSend example_env
                 (Responded True (Some (JObj [(''text'', JStr ''Short version.'')])))
                 initial_state)))) \<noteq> []
      \<and> \<not> modalOpen (fst (handleSend example_env (Responded False None)
          (fst (handleSend example_env
                 (Responded True (Some (JObj [(''text'', JStr ''Short version.'')])))
                 initial_state)))))"
  by (simp add: send_defs example_env_def initial_state_def SEND_ERROR_def)

text \<open>
  C9. Resend and Keep Existing make no call at all (no \<^verbatim>\<open>setContent\<close>, no \<^verbatim>\<open>onChange\<close>,
  no acceptance callback), so the surface content is unchanged; both close the modal and
  reset the pending response text to the empty string.
\<close>

theorem resend_keep_existing_frame:
  "snd (handleResend s) = [] \<and> surface_content parse c (snd (handleResend s)) = c
   \<and> \<not> modalOpen (fst (handleResend s)) \<and> responseText (fst (handleResend s)) = JStr []
   \<and> snd (handleKeepExisting s) = []
   \<and> surface_content parse c (snd (handleKeepExisting s)) = c
   \<and> \<not> modalOpen (fst (handleKeepExisting s))
   \<and> responseText (fst (handleKeepExisting s)) = JStr []"
  by (simp add: handleResend_def handleKeepExisting_def)

theorem resend_keep_existing_frame_witness:
  "snd (handleResend
          (initial_state\<lparr>modalOpen := True, responseText := JStr ''Short version.''\<rparr>)) = []
   \<and> responseText (fst (handleResend
          (initial_state\<lparr>modalOpen := True, responseText := JStr ''Short version.''\<rparr>)))
       = JStr []
   \<and> \<not> modalOpen (fst (handleKeepExisting
          (initial_state\<lparr>modalOpen := True, responseText := JStr ''Short version.''\<rparr>)))"
  using resend_keep_existing_frame
          [where s = "initial_state\<lparr>modalOpen := True, responseText := JStr ''Short version.''\<rparr>"
             and parse = id and c = "JStr ''Long paragraph...''"]
  by simp

text \<open>
  C10. With the empty string pending, Accept makes no call (the content is unchanged,
  neither \<^verbatim>\<open>onChange\<close> nor the acceptance callback runs), closes the modal and clears
  the pending response. That state arises when a 2xx response is a JSON object without a
  text field: the modal opens with the empty string pending.
\<close>

theorem accept_empty_response:
  "(responseText s = JStr []
      \<longrightarrow> snd (handleAccept env s) = []
          \<and> surface_content parse c (snd (handleAccept env s)) = c
          \<and> \<not> modalOpen (fst (handleAccept env s))
          \<and> responseText (fst (handleAccept env s)) = JStr [])
   \<and> (editor env = Some ed \<and> map_of kvs ''text'' = None
      \<longrightarrow> modalOpen (fst (handleSend env (Responded True (Some (JObj kvs))) s))
          \<and> responseText (fst (handleSend env (Responded True (Some (JObj kvs))) s)) = JStr []
          \<and> snd (handleAccept env
                  (fst (handleSend env (Responded True (Some (JObj kvs))) s))) = [])"
  by (simp add: handleAccept_def send_defs)

theorem accept_empty_response_witness:
  "snd (handleAccept example_env (initial_state\<lparr>modalOpen := True\<rparr>)) = []
   \<and> \<not> modalOpen (fst (handleAccept example_env (initial_state\<lparr>modalOpen := True\<rparr>)))
   \<and> modalOpen (fst (handleSend example_env
                       (Responded True (Some (JObj [(''status'', JStr ''ok'')])))
                       initial_state))
   \<and> snd (handleAccept example_env
            (fst (handleSend example_env
                    (Responded True (Some (JObj [(''status'', JStr ''ok'')])))
                    initial_state))) = []"
  using accept_empty_response
          [where s = "initial_state\<lparr>modalOpen := True\<rparr>" and env = example_env
             and parse = id and c = "JStr ''Long paragraph...''"
             and ed = "\<lparr>getText = ''Long paragraph...''\<rparr>"
             and kvs = "[(''status'', JStr ''ok'')]"]
    accept_empty_response
          [where s = initial_state and env = example_env
             and parse = id and c = "JStr ''Long paragraph...''"
             and ed = "\<lparr>getText = ''Long paragraph...''\<rparr>"
             and kvs = "[(''status'', JStr ''ok'')]"]
  by (simp add: example_env_def initial_state_def)

section \<open>Properties of the proposal screen\<close>

lemmas ethics_defs = submitToEthics_def simulateEthicsFeedback_def markEthicsApproved_def
  proceedToDataCollection_def updateProposal_def Let_def




text \<open>
  C4 (as amended). \<open>Approved\<close> is terminal: every button the panel renders in that
  state leaves the ethics status \<open>Approved\<close>. The force-approve button is rendered
  exactly when the viewer may edit, the project has its idea, and the status is neither
  \<open>Approved\<close> nor \<open>Submitted\<close> (so in \<open>Not Submitted\<close> and in \<open>Feedback Received\<close>);
  in \<open>Submitted\<close> the only button is the simulated feedback. Where it runs,
  \<^verbatim>\<open>markEthicsApproved\<close> makes the status \<open>Approved\<close>.
\<close>

theorem approved_terminal_force_guarded:
  "(proposal pr = Some p \<and> ethicsStatus p = ''Approved''
      \<longrightarrow> (\<forall>b \<in> set (ethics_buttons ce (Some pr)).
             ethicsStatus (proposal_after (snd (onClick users b (Some pr) m)) p) = ''Approved''))
   \<and> ((Force_Mark_Approved \<in> set (ethics_buttons ce (Some pr)))
        = (ce \<and> idea pr \<noteq> None \<and> ethicsStatus_of (Some pr) \<noteq> Some ''Approved''
             \<and> ethicsStatus_of (Some pr) \<noteq> Some ''Submitted''))
   \<and> (idea pr \<noteq> None \<and> ethicsStatus_of (Some pr) = Some ''Submitted''
      \<longrightarrow> ethics_buttons ce (Some pr) = [Simulate_Ethics_Feedback])
   \<and> ethicsStatus (proposal_after (snd (markEthicsApproved users (Some pr) m)) p) = ''Approved''"
  by (auto simp add: ethics_buttons_def ethicsStatus_of_def ethics_defs split: option.splits)

theorem approved_terminal_force_guarded_witness:
  "ethics_buttons True (Some (example_project ''Approved'')) = [Proceed_to_Data_Collection]
   \<and> ethicsStatus (proposal_after
          (snd (onClick example_users Proceed_to_Data_Collection
                  (Some (example_project ''Approved'')) initial_module_state))
          (example_proposal ''Approved'')) = ''Approved''
   \<and> Force_Mark_Approved \<in> set (ethics_buttons True (Some (example_project ''Not Submitted'')))
   \<and> Force_Mark_Approved
       \<in> set (ethics_buttons True (Some (example_project ''Feedback Received'')))
   \<and> ethics_buttons True (Some (example_project ''Submitted'')) = [Simulate_Ethics_Feedback]"
  using approved_terminal_force_guarded
          [where pr = "example_project ''Approved''" and p = "example_proposal ''Approved''"
             and ce = True and users = example_users and m = initial_module_state]
    approved_terminal_force_guarded
          [where pr = "example_project ''Not Submitted''"
             and p = "example_proposal ''Not Submitted''"
             and ce = True and users = example_users and m = initial_module_state]
    approved_terminal_force_guarded
          [where pr = "example_project ''Feedback Received''"
             and p = "example_proposal ''Feedback Received''"
             and ce = True and users = example_users and m = initial_module_state]
    approved_terminal_force_guarded
          [where pr = "example_project ''Submitted''" and p = "example_proposal ''Submitted''"
             and ce = True and users = example_users and m = initial_module_state]
  by (simp add: ethics_buttons_def ethicsStatus_of_def example_project_def
        example_proposal_def)

text \<open>
  C4 as stated fails: for a viewer who may edit, the force-approve button is rendered
  neither in \<open>Submitted\<close> nor in \<open>Approved\<close>.
\<close>

theorem force_approve_not_everywhere_counterexample:
  "\<not> (Force_Mark_Approved \<in> set (ethics_buttons True (Some (example_project ''Submitted'')))
      \<and> Force_Mark_Approved
          \<in> set (ethics_buttons True (Some (example_project ''Approved''))))"
  by (simp add: ethics_buttons_def ethicsStatus_of_def example_project_def
        example_proposal_def)

text \<open>
  C5. On an existing project each of the three ethics operations makes the ethics status
  of the proposal, whatever it was, one of the four values: \<open>Submitted\<close> after
  \<^verbatim>\<open>submitToEthics\<close>, \<open>Feedback Received\<close> after \<^verbatim>\<open>simulateEthicsFeedback\<close>,
  \<open>Approved\<close> after \<^verbatim>\<open>markEthicsApproved\<close>. Without a project the operations make no
  call, so nothing changes.
\<close>

theorem ethics_ops_status_enumerated:
  "ethicsStatus (proposal_after (snd (submitToEthics (Some pr) m)) p) = ''Submitted''
   \<and> ethicsStatus (proposal_after (snd (simulateEthicsFeedback (Some pr) m)) p)
       = ''Feedback Received''
   \<and> ethicsStatus (proposal_after (snd (markEthicsApproved users (Some pr) m)) p) = ''Approved''
   \<and> ethicsStatus (proposal_after (snd (submitToEthics (Some pr) m)) p) \<in> set ETHICS_STATUSES
   \<and> ethicsStatus (proposal_after (snd (simulateEthicsFeedback (Some pr) m)) p)
       \<in> set ETHICS_STATUSES
   \<and> ethicsStatus (proposal_after (snd (markEthicsApproved users (Some pr) m)) p)
       \<in> set ETHICS_STATUSES
   \<and> snd (submitToEthics None m) = []
   \<and> snd (simulateEthicsFeedback None m) = []
   \<and> snd (markEthicsApproved users None m) = []"
  by (simp add: ethics_defs ETHICS_STATUSES_def split: option.splits)

theorem ethics_ops_status_enumerated_witness:
  "ethicsStatus (proposal_after
      (snd (submitToEthics (Some (example_project ''Not Submitted'')) initial_module_state))
      (example_proposal ''Not Submitted'')) = ''Submitted''
   \<and> ethicsStatus (proposal_after
      (snd (simulateEthicsFeedback (Some (example_project ''Submitted'')) initial_module_state))
      (example_proposal ''Submitted'')) = ''Feedback Received''
   \<and> ethicsStatus (proposal_after
      (snd (markEthicsApproved example_users (Some (example_project ''Feedback Received''))
              initial_module_state))
      (example_proposal ''Feedback Received'')) = ''Approved''"
  using ethics_ops_status_enumerated
          [where pr = "example_project ''Not Submitted''"
             and p = "example_proposal ''Not Submitted''" and m = initial_module_state]
    ethics_ops_status_enumerated
          [where pr = "example_project ''Submitted''"
             and p = "example_proposal ''Submitted''" and m = initial_module_state]
    ethics_ops_status_enumerated
          [where pr = "example_project ''Feedback Received''"
             and p = "example_proposal ''Feedback Received''" and m = initial_module_state
             and users = example_users]
  by simp



text \<open>
  C8. When \<^verbatim>\<open>markEthicsApproved\<close> runs on an existing project: if the user list
  contains a statistician, the first one is assigned (\<^verbatim>\<open>assignExpert\<close> with the role
  \<open>statistician\<close> and the id of that user) and a success notification naming that user is
  shown; if it contains none, no assignment is made and the softer success notification
  is shown. In both cases the ethics status becomes \<open>Approved\<close>.
\<close>

theorem approval_assigns_statistician:
  fixes users pr m p calls m'
  defines "calls \<equiv> snd (markEthicsApproved users (Some pr) m)"
    and "m' \<equiv> fst (markEthicsApproved users (Some pr) m)"
  shows "((\<exists>u \<in> set users. role u = STATISTICIAN)
          \<longrightarrow> (\<exists>st \<in> set users. role st = STATISTICIAN
                 \<and> find (\<lambda>u. role u = STATISTICIAN) users = Some st
                 \<and> calls = [UpdateProposal
                              \<lparr>p_sections = None, p_ethicsStatus = Some ''Approved'',
                               p_ethicsFeedback =
                                 Some ''Congratulations! Your proposal has been approved.''\<rparr>,
                            AssignExpert ''statistician'' (user_id st)]
                 \<and> notification m' = Some
                      \<lparr>message = ''Proposal Approved! Statistician '' @ dq @ user_name st @ dq
                                 @ '' has been assigned (12 hours allocated).'',
                       ntype = N_success\<rparr>))
       \<and> ((\<forall>u \<in> set users. role u \<noteq> STATISTICIAN)
          \<longrightarrow> (\<forall>r i. AssignExpert r i \<notin> set calls)
              \<and> notification m' = Some
                   \<lparr>message = ''Proposal Approved! (No mock statistician found).'',
                    ntype = N_success\<rparr>)
       \<and> ethicsStatus (proposal_after calls p) = ''Approved''"
proof -
  have approved: "ethicsStatus (proposal_after calls p) = ''Approved''"
    by (simp add: calls_def ethics_defs split: option.splits)
  have absent: "(\<forall>r i. AssignExpert r i \<notin> set calls)
              \<and> notification m' = Some
                   \<lparr>message = ''Proposal Approved! (No mock statistician found).'',
                    ntype = N_success\<rparr>"
    if "\<forall>u \<in> set users. role u \<noteq> STATISTICIAN"
  proof -
    from that have "find (\<lambda>u. role u = STATISTICIAN) users = None"
      by (simp add: find_None_iff)
    then show ?thesis
      by (simp add: calls_def m'_def ethics_defs)
  qed
  have present: "\<exists>st \<in> set users. role st = STATISTICIAN
                 \<and> find (\<lambda>u. role u = STATISTICIAN) users = Some st
                 \<and> calls = [UpdateProposal
                              \<lparr>p_sections = None, p_ethicsStatus = Some ''Approved'',
                               p_ethicsFeedback =
                                 Some ''Congratulations! Your proposal has been approved.''\<rparr>,
                            AssignExpert ''statistician'' (user_id st)]
                 \<and> notification m' = Some
                      \<lparr>message = ''Proposal Approved! Statistician '' @ dq @ user_name st @ dq
                                 @ '' has been assigned (12 hours allocated).'',
                       ntype = N_success\<rparr>"
    if "\<exists>u \<in> set users. role u = STATISTICIAN"
  proof -
    from that obtain st where st: "find (\<lambda>u. role u = STATISTICIAN) users = Some st"
      by (cases "find (\<lambda>u. role u = STATISTICIAN) users") (auto simp add: find_None_iff)
    then have "st \<in> set users" and "role st = STATISTICIAN"
      by (auto simp add: find_Some_iff)
    with st show ?thesis
      by (auto simp add: calls_def m'_def ethics_defs)
  qed
  from approved absent present show ?thesis by blast
qed

theorem approval_assigns_statistician_witness:
  "AssignExpert ''statistician'' ''u2''
     \<in> set (snd (markEthicsApproved example_users
                  (Some (example_project ''Feedback Received'')) initial_module_state))
   \<and> notification (fst (markEthicsApproved example_users
                  (Some (example_project ''Feedback Received'')) initial_module_state))
     = Some \<lparr>message = ''Proposal Approved! Statistician '' @ dq @ ''Sam'' @ dq
                       @ '' has been assigned (12 hours allocated).'',
             ntype = N_success\<rparr>
   \<and> AssignExpert ''statistician'' ''u2''
     \<notin> set (snd (markEthicsApproved []
                  (Some (example_project ''Feedback Received'')) initial_module_state))
   \<and> ethicsStatus (proposal_after
        (snd (markEthicsApproved []
                (Some (example_project ''Feedback Received'')) initial_module_state))
        (example_proposal ''Feedback Received'')) = ''Approved''"
  using approval_assigns_statistician
          [where users = example_users and pr = "example_project ''Feedback Received''"
             and m = initial_module_state and p = "example_proposal ''Feedback Received''"]
    approval_assigns_statistician
          [where users = "[]" and pr = "example_project ''Feedback Received''"
             and m = initial_module_state and p = "example_proposal ''Feedback Received''"]
  by (simp add: example_users_def)

end
